theory Spec2Isabelle
  imports Main "HOL-Library.Sublist" "HOL-Library.Word"
begin

unbundle bit_operations_syntax

section \<open>The BLE bridge of libdc-swift: \<^verbatim>\<open>configuredc.c\<close>\<close>

text \<open>
  This theory embeds the C functions of \<^verbatim>\<open>Sources/LibDCBridge/src/configuredc.c\<close>:
  the stream adapter, the name resolution over the pattern table, the event callback,
  and the session life cycle (\<^verbatim>\<open>open_ble_device\<close>, \<^verbatim>\<open>close_device_data\<close>,
  \<^verbatim>\<open>open_ble_device_with_identification\<close>).

  Pointers are options (\<open>None\<close> is \<^verbatim>\<open>NULL\<close>). Every call into libdivecomputer, the
  Bluetooth layer or the allocator is written to a chronological trace of events, so
  that what was acquired, what was released, and in which order, can be read off.
  The outcome of each fallible external call is a parameter (a field of \<open>env\<close>) that may
  depend on the trace so far. \<^verbatim>\<open>printf\<close> output is not modelled.
\<close>

subsection \<open>Status codes, families, transports\<close>

text \<open>libdivecomputer's \<^verbatim>\<open>dc_status_t\<close> (\<^verbatim>\<open>common.h\<close>).\<close>

datatype dc_status_t =
    DC_STATUS_SUCCESS
  | DC_STATUS_DONE
  | DC_STATUS_UNSUPPORTED
  | DC_STATUS_INVALIDARGS
  | DC_STATUS_NOMEMORY
  | DC_STATUS_NODEVICE
  | DC_STATUS_NOACCESS
  | DC_STATUS_IO
  | DC_STATUS_TIMEOUT
  | DC_STATUS_PROTOCOL
  | DC_STATUS_DATAFORMAT
  | DC_STATUS_CANCELLED

text \<open>\<^verbatim>\<open>dc_family_t\<close> is a C enumeration; only \<^verbatim>\<open>DC_FAMILY_NULL\<close> (zero) is named here.\<close>

type_synonym dc_family_t = int

definition DC_FAMILY_NULL :: dc_family_t where
  "DC_FAMILY_NULL = 0"

text \<open>The transport bit of libdivecomputer's \<^verbatim>\<open>dc_transport_t\<close>: \<^verbatim>\<open>DC_TRANSPORT_BLE = (1 << 5)\<close>.\<close>

definition DC_TRANSPORT_BLE :: "32 word" where
  "DC_TRANSPORT_BLE = push_bit 5 1"

subsection \<open>Descriptors of the device catalog\<close>

text \<open>
  A descriptor is opaque in C and read through its accessor functions; the fields carry
  the accessors' names. Vendor and product are \<^verbatim>\<open>const char *\<close> and may be \<^verbatim>\<open>NULL\<close>.
\<close>

record dc_descriptor_t =
  dc_descriptor_get_vendor :: "string option"
  dc_descriptor_get_product :: "string option"
  dc_descriptor_get_type :: dc_family_t
  dc_descriptor_get_model :: "32 word"
  dc_descriptor_get_transports :: "32 word"

subsection \<open>Resources and the event trace\<close>

text \<open>
  Handles are natural numbers; a handle created when the trace has \<open>n\<close> events is \<open>n\<close>,
  so handles created along one trace are distinct.

  \<open>Acquire\<close> and \<open>Release\<close> stand for the calls that create and destroy a resource:
  \<^item> a context: \<^verbatim>\<open>dc_context_new\<close>, \<^verbatim>\<open>dc_context_free\<close>;
  \<^item> an iterator: \<^verbatim>\<open>dc_descriptor_iterator\<close>, \<^verbatim>\<open>dc_iterator_free\<close>;
  \<^item> a descriptor: handed out by \<^verbatim>\<open>dc_iterator_next\<close>, \<^verbatim>\<open>dc_descriptor_free\<close>;
  \<^item> a BLE object: \<^verbatim>\<open>createBLEObject\<close>, \<^verbatim>\<open>freeBLEObject\<close>;
  \<^item> a stream: the \<^verbatim>\<open>malloc\<close> of \<^verbatim>\<open>ble_iostream_create\<close>, the \<^verbatim>\<open>free\<close> of \<^verbatim>\<open>ble_stream_close\<close>;
  \<^item> a device: \<^verbatim>\<open>dc_device_open\<close>, \<^verbatim>\<open>dc_device_close\<close>;
  \<^item> a label and a session structure: \<^verbatim>\<open>malloc\<close> or \<^verbatim>\<open>calloc\<close>, and \<^verbatim>\<open>free\<close>;
  \<^item> fingerprint bytes: allocated inside the application's lookup, so only their
    \<^verbatim>\<open>free\<close> is a call of this code.

  The other events are \<^verbatim>\<open>initializeBLEManager\<close>, \<^verbatim>\<open>connectToBLEDevice\<close>, \<^verbatim>\<open>ble_close\<close>,
  \<^verbatim>\<open>dc_device_set_events\<close>, the lookup callback and \<^verbatim>\<open>dc_device_set_fingerprint\<close>, with
  their arguments.
\<close>

datatype resource =
    Context nat
  | Iterator nat
  | Descriptor dc_descriptor_t
  | BLEObject nat
  | Stream nat
  | Device nat
  | Fingerprint "8 word list"
  | Label string
  | Session nat

datatype event =
    Acquire resource
  | Release resource
  | InitializeBLEManager
  | ConnectToBLEDevice nat string
  | BLEClose nat
  | SetEvents nat
  | LookupFingerprint "nat option" string string
  | SetFingerprint nat "8 word list" nat

text \<open>The resources that are acquired and not yet released after a trace, newest first.\<close>

fun live_step :: "resource list \<Rightarrow> event \<Rightarrow> resource list" where
  "live_step rs (Acquire r) = r # rs"
| "live_step rs (Release r) = remove1 r rs"
| "live_step rs _ = rs"

definition live :: "event list \<Rightarrow> resource list" where
  "live tr = foldl live_step [] tr"

subsection \<open>External collaborators\<close>

text \<open>
  The outcomes of the calls that \<^verbatim>\<open>configuredc.c\<close> makes into libdivecomputer, the Bluetooth
  layer and the allocator. \<open>catalog\<close> is the sequence of descriptors that \<^verbatim>\<open>dc_iterator_next\<close>
  yields before it stops returning \<^verbatim>\<open>DC_STATUS_SUCCESS\<close>; \<open>malloc\<close> tells whether an
  allocation succeeds.
\<close>

record env =
  dc_descriptor_iterator :: "event list \<Rightarrow> dc_status_t"
  catalog :: "dc_descriptor_t list"
  dc_descriptor_filter :: "dc_descriptor_t \<Rightarrow> 32 word \<Rightarrow> string \<Rightarrow> bool"
  dc_context_new :: "event list \<Rightarrow> dc_status_t"
  createBLEObject :: "event list \<Rightarrow> bool"
  connectToBLEDevice :: "event list \<Rightarrow> string \<Rightarrow> bool"
  malloc :: "event list \<Rightarrow> bool"
  dc_device_open :: "event list \<Rightarrow> dc_descriptor_t \<Rightarrow> dc_status_t"
  dc_device_set_events :: "event list \<Rightarrow> dc_status_t"
  ble_close :: "event list \<Rightarrow> dc_status_t"

subsection \<open>C string functions\<close>

definition strlen :: "string \<Rightarrow> nat" where
  "strlen s = length s"

text \<open>\<^verbatim>\<open>strstr\<close>: the rest of the haystack from the first occurrence of the needle, or \<^verbatim>\<open>NULL\<close>.\<close>

fun strstr :: "string \<Rightarrow> string \<Rightarrow> string option" where
  "strstr [] needle = (if needle = [] then Some [] else None)"
| "strstr (c # cs) needle =
     (if prefix needle (c # cs) then Some (c # cs) else strstr cs needle)"

text \<open>
  \<^verbatim>\<open>strncmp\<close> compares at most \<open>n\<close> characters and stops at the terminator; only the sign
  of a non-zero result is specified by C.
\<close>

fun strncmp :: "string \<Rightarrow> string \<Rightarrow> nat \<Rightarrow> int" where
  "strncmp s1 s2 0 = 0"
| "strncmp [] [] (Suc n) = 0"
| "strncmp [] (c # cs) (Suc n) = - 1"
| "strncmp (c # cs) [] (Suc n) = 1"
| "strncmp (c1 # cs1) (c2 # cs2) (Suc n) =
     (if c1 = c2 then strncmp cs1 cs2 n
      else if (of_char c1 :: nat) < of_char c2 then - 1 else 1)"

fun strcmp :: "string \<Rightarrow> string \<Rightarrow> int" where
  "strcmp [] [] = 0"
| "strcmp [] (c # cs) = - 1"
| "strcmp (c # cs) [] = 1"
| "strcmp (c1 # cs1) (c2 # cs2) =
     (if c1 = c2 then strcmp cs1 cs2
      else if (of_char c1 :: nat) < of_char c2 then - 1 else 1)"

subsection \<open>The pattern table\<close>

datatype match_type_t = MATCH_EXACT | MATCH_PREFIX | MATCH_CONTAINS

text \<open>\<^verbatim>\<open>struct name_pattern\<close>; its field \<^verbatim>\<open>prefix\<close> is \<open>prefix_np\<close> here.\<close>

record name_pattern =
  prefix_np :: string
  vendor :: string
  product :: string
  match_type :: match_type_t

definition name_patterns :: "name_pattern list" where
  "name_patterns = [
    \<lparr>prefix_np = ''Predator'', vendor = ''Shearwater'', product = ''Predator'', match_type = MATCH_EXACT\<rparr>,
    \<lparr>prefix_np = ''Perdix 2'', vendor = ''Shearwater'', product = ''Perdix 2'', match_type = MATCH_EXACT\<rparr>,
    \<lparr>prefix_np = ''Petrel 3'', vendor = ''Shearwater'', product = ''Petrel 3'', match_type = MATCH_EXACT\<rparr>,
    \<lparr>prefix_np = ''Petrel'', vendor = ''Shearwater'', product = ''Petrel 2'', match_type = MATCH_EXACT\<rparr>,
    \<lparr>prefix_np = ''Perdix'', vendor = ''Shearwater'', product = ''Perdix'', match_type = MATCH_EXACT\<rparr>,
    \<lparr>prefix_np = ''Teric'', vendor = ''Shearwater'', product = ''Teric'', match_type = MATCH_EXACT\<rparr>,
    \<lparr>prefix_np = ''Peregrine TX'', vendor = ''Shearwater'', product = ''Peregrine TX'', match_type = MATCH_EXACT\<rparr>,
    \<lparr>prefix_np = ''Peregrine'', vendor = ''Shearwater'', product = ''Peregrine TX'', match_type = MATCH_EXACT\<rparr>,
    \<lparr>prefix_np = ''NERD 2'', vendor = ''Shearwater'', product = ''NERD 2'', match_type = MATCH_EXACT\<rparr>,
    \<lparr>prefix_np = ''NERD'', vendor = ''Shearwater'', product = ''NERD'', match_type = MATCH_EXACT\<rparr>,
    \<lparr>prefix_np = ''Tern'', vendor = ''Shearwater'', product = ''Tern'', match_type = MATCH_EXACT\<rparr>,
    \<lparr>prefix_np = ''EON Steel'', vendor = ''Suunto'', product = ''EON Steel'', match_type = MATCH_EXACT\<rparr>,
    \<lparr>prefix_np = ''Suunto D5'', vendor = ''Suunto'', product = ''D5'', match_type = MATCH_EXACT\<rparr>,
    \<lparr>prefix_np = ''EON Core'', vendor = ''Suunto'', product = ''EON Core'', match_type = MATCH_EXACT\<rparr>,
    \<lparr>prefix_np = ''G2'', vendor = ''Scubapro'', product = ''G2'', match_type = MATCH_EXACT\<rparr>,
    \<lparr>prefix_np = ''HUD'', vendor = ''Scubapro'', product = ''G2 HUD'', match_type = MATCH_EXACT\<rparr>,
    \<lparr>prefix_np = ''G3'', vendor = ''Scubapro'', product = ''G3'', match_type = MATCH_EXACT\<rparr>,
    \<lparr>prefix_np = ''Aladin'', vendor = ''Scubapro'', product = ''Aladin Sport Matrix'', match_type = MATCH_EXACT\<rparr>,
    \<lparr>prefix_np = ''A1'', vendor = ''Scubapro'', product = ''Aladin A1'', match_type = MATCH_EXACT\<rparr>,
    \<lparr>prefix_np = ''A2'', vendor = ''Scubapro'', product = ''Aladin A2'', match_type = MATCH_EXACT\<rparr>,
    \<lparr>prefix_np = ''Luna 2.0 AI'', vendor = ''Scubapro'', product = ''Luna 2.0 AI'', match_type = MATCH_EXACT\<rparr>,
    \<lparr>prefix_np = ''Luna 2.0'', vendor = ''Scubapro'', product = ''Luna 2.0'', match_type = MATCH_EXACT\<rparr>,
    \<lparr>prefix_np = ''Mares Genius'', vendor = ''Mares'', product = ''Genius'', match_type = MATCH_EXACT\<rparr>,
    \<lparr>prefix_np = ''Sirius'', vendor = ''Mares'', product = ''Sirius'', match_type = MATCH_EXACT\<rparr>,
    \<lparr>prefix_np = ''Quad Ci'', vendor = ''Mares'', product = ''Quad Ci'', match_type = MATCH_EXACT\<rparr>,
    \<lparr>prefix_np = ''Puck4'', vendor = ''Mares'', product = ''Puck 4'', match_type = MATCH_EXACT\<rparr>,
    \<lparr>prefix_np = ''CARESIO_'', vendor = ''Cressi'', product = ''Cartesio'', match_type = MATCH_PREFIX\<rparr>,
    \<lparr>prefix_np = ''GOA_'', vendor = ''Cressi'', product = ''Goa'', match_type = MATCH_PREFIX\<rparr>,
    \<lparr>prefix_np = ''Leonardo'', vendor = ''Cressi'', product = ''Leonardo 2.0'', match_type = MATCH_CONTAINS\<rparr>,
    \<lparr>prefix_np = ''Donatello'', vendor = ''Cressi'', product = ''Donatello'', match_type = MATCH_CONTAINS\<rparr>,
    \<lparr>prefix_np = ''Michelangelo'', vendor = ''Cressi'', product = ''Michelangelo'', match_type = MATCH_CONTAINS\<rparr>,
    \<lparr>prefix_np = ''Neon'', vendor = ''Cressi'', product = ''Neon'', match_type = MATCH_CONTAINS\<rparr>,
    \<lparr>prefix_np = ''Nepto'', vendor = ''Cressi'', product = ''Nepto'', match_type = MATCH_CONTAINS\<rparr>,
    \<lparr>prefix_np = ''OSTC 3'', vendor = ''Heinrichs Weikamp'', product = ''OSTC Plus'', match_type = MATCH_EXACT\<rparr>,
    \<lparr>prefix_np = ''OSTC s#'', vendor = ''Heinrichs Weikamp'', product = ''OSTC Sport'', match_type = MATCH_EXACT\<rparr>,
    \<lparr>prefix_np = ''OSTC s '', vendor = ''Heinrichs Weikamp'', product = ''OSTC Sport'', match_type = MATCH_EXACT\<rparr>,
    \<lparr>prefix_np = ''OSTC 4-'', vendor = ''Heinrichs Weikamp'', product = ''OSTC 4'', match_type = MATCH_EXACT\<rparr>,
    \<lparr>prefix_np = ''OSTC 2-'', vendor = ''Heinrichs Weikamp'', product = ''OSTC 2N'', match_type = MATCH_EXACT\<rparr>,
    \<lparr>prefix_np = ''OSTC + '', vendor = ''Heinrichs Weikamp'', product = ''OSTC 2'', match_type = MATCH_EXACT\<rparr>,
    \<lparr>prefix_np = ''OSTC'', vendor = ''Heinrichs Weikamp'', product = ''OSTC 2'', match_type = MATCH_EXACT\<rparr>,
    \<lparr>prefix_np = ''COSMIQ'', vendor = ''Deepblu'', product = ''Cosmiq+'', match_type = MATCH_EXACT\<rparr>,
    \<lparr>prefix_np = ''S1'', vendor = ''Oceans'', product = ''S1'', match_type = MATCH_EXACT\<rparr>,
    \<lparr>prefix_np = ''McLean Extreme'', vendor = ''McLean'', product = ''Extreme'', match_type = MATCH_EXACT\<rparr>,
    \<lparr>prefix_np = ''DiveComputer'', vendor = ''Tecdiving'', product = ''DiveComputer.eu'', match_type = MATCH_EXACT\<rparr>,
    \<lparr>prefix_np = ''DS'', vendor = ''Ratio'', product = ''iX3M 2021 GPS Easy'', match_type = MATCH_EXACT\<rparr>,
    \<lparr>prefix_np = ''IX5M'', vendor = ''Ratio'', product = ''iX3M 2021 GPS Easy'', match_type = MATCH_EXACT\<rparr>,
    \<lparr>prefix_np = ''RATIO-'', vendor = ''Ratio'', product = ''iX3M 2021 GPS Easy'', match_type = MATCH_EXACT\<rparr>
  ]"

subsection \<open>\<^verbatim>\<open>find_descriptor_by_name\<close>\<close>

text \<open>The \<^verbatim>\<open>switch\<close> on the match type that sets \<^verbatim>\<open>matches\<close>.\<close>

definition matches :: "name_pattern \<Rightarrow> string \<Rightarrow> bool" where
  "matches p name =
     (case match_type p of
        MATCH_EXACT \<Rightarrow> strstr name (prefix_np p) \<noteq> None
      | MATCH_PREFIX \<Rightarrow> strncmp name (prefix_np p) (strlen (prefix_np p)) = 0
      | MATCH_CONTAINS \<Rightarrow> strstr name (prefix_np p) \<noteq> None)"

text \<open>The test of the inner \<^verbatim>\<open>while\<close> loop: vendor and product are non-null and equal the entry's.\<close>

definition descriptor_is :: "name_pattern \<Rightarrow> dc_descriptor_t \<Rightarrow> bool" where
  "descriptor_is p d =
     (case dc_descriptor_get_vendor d of
        None \<Rightarrow> False
      | Some v \<Rightarrow>
          (case dc_descriptor_get_product d of
             None \<Rightarrow> False
           | Some pr \<Rightarrow> strcmp v (vendor p) = 0 \<and> strcmp pr (product p) = 0))"

text \<open>
  The inner loop over the catalog for one table entry: each descriptor the iterator hands
  out is either returned (after freeing the iterator) or freed.
\<close>

fun catalog_loop ::
  "name_pattern \<Rightarrow> nat \<Rightarrow> dc_descriptor_t list \<Rightarrow> event list \<Rightarrow> dc_descriptor_t option \<times> event list"
where
  "catalog_loop p it [] tr = (None, tr @ [Release (Iterator it)])"
| "catalog_loop p it (d # ds) tr =
     (if descriptor_is p d
      then (Some d, tr @ [Acquire (Descriptor d), Release (Iterator it)])
      else catalog_loop p it ds (tr @ [Acquire (Descriptor d), Release (Descriptor d)]))"

text \<open>
  A function that returns a status and, on success only, writes a result through an out
  parameter is given a sum: \<open>Inl rc\<close> is a return of \<open>rc\<close> (never \<^verbatim>\<open>DC_STATUS_SUCCESS\<close>)
  with the out parameter untouched, \<open>Inr x\<close> is \<^verbatim>\<open>DC_STATUS_SUCCESS\<close> with \<open>x\<close> written.
\<close>

fun status_of :: "dc_status_t + 'a \<Rightarrow> dc_status_t" where
  "status_of (Inl rc) = rc"
| "status_of (Inr x) = DC_STATUS_SUCCESS"

text \<open>The fallback loop: the first BLE-capable descriptor whose filter accepts the name.\<close>

fun filter_loop ::
  "env \<Rightarrow> string \<Rightarrow> nat \<Rightarrow> dc_descriptor_t list \<Rightarrow> event list
     \<Rightarrow> (dc_status_t + dc_descriptor_t) \<times> event list"
where
  "filter_loop e name it [] tr = (Inl DC_STATUS_UNSUPPORTED, tr @ [Release (Iterator it)])"
| "filter_loop e name it (d # ds) tr =
     (if dc_descriptor_get_transports d AND DC_TRANSPORT_BLE \<noteq> 0
         \<and> dc_descriptor_filter e d DC_TRANSPORT_BLE name
      then (Inr d, tr @ [Acquire (Descriptor d), Release (Iterator it)])
      else filter_loop e name it ds (tr @ [Acquire (Descriptor d), Release (Descriptor d)]))"

definition filter_fallback ::
  "env \<Rightarrow> string \<Rightarrow> event list \<Rightarrow> (dc_status_t + dc_descriptor_t) \<times> event list"
where
  "filter_fallback e name tr =
     (let rc = dc_descriptor_iterator e tr in
      if rc \<noteq> DC_STATUS_SUCCESS then (Inl rc, tr)
      else filter_loop e name (length tr) (catalog e) (tr @ [Acquire (Iterator (length tr))]))"

text \<open>
  The \<^verbatim>\<open>for\<close> loop over the table, from a given entry on. A matching entry whose
  catalog search finds nothing frees the iterator and the loop goes on with the next
  entry; after the last entry the fallback runs.
\<close>

fun patterns_loop ::
  "env \<Rightarrow> name_pattern list \<Rightarrow> string \<Rightarrow> event list
     \<Rightarrow> (dc_status_t + dc_descriptor_t) \<times> event list"
where
  "patterns_loop e [] name tr = filter_fallback e name tr"
| "patterns_loop e (p # ps) name tr =
     (if matches p name then
        (let rc = dc_descriptor_iterator e tr in
         if rc \<noteq> DC_STATUS_SUCCESS then (Inl rc, tr)
         else
           (case catalog_loop p (length tr) (catalog e) (tr @ [Acquire (Iterator (length tr))]) of
              (Some d, tr') \<Rightarrow> (Inr d, tr')
            | (None, tr') \<Rightarrow> patterns_loop e ps name tr'))
      else patterns_loop e ps name tr)"

definition find_descriptor_by_name ::
  "env \<Rightarrow> string \<Rightarrow> event list \<Rightarrow> (dc_status_t + dc_descriptor_t) \<times> event list"
where
  "find_descriptor_by_name e name tr = patterns_loop e name_patterns name tr"

subsection \<open>\<^verbatim>\<open>get_device_info_from_name\<close>\<close>

text \<open>Family and model of the resolved descriptor; the descriptor is freed before returning.\<close>

definition get_device_info_from_name ::
  "env \<Rightarrow> string \<Rightarrow> event list \<Rightarrow> (dc_status_t + dc_family_t \<times> 32 word) \<times> event list"
where
  "get_device_info_from_name e name tr =
     (case find_descriptor_by_name e name tr of
        (Inl rc, tr') \<Rightarrow> (Inl rc, tr')
      | (Inr d, tr') \<Rightarrow>
          (Inr (dc_descriptor_get_type d, dc_descriptor_get_model d),
           tr' @ [Release (Descriptor d)]))"

subsection \<open>\<^verbatim>\<open>find_descriptor_by_model\<close>\<close>

fun model_loop ::
  "dc_family_t \<Rightarrow> 32 word \<Rightarrow> nat \<Rightarrow> dc_descriptor_t list \<Rightarrow> event list
     \<Rightarrow> (dc_status_t + dc_descriptor_t) \<times> event list"
where
  "model_loop family model_no it [] tr =
     (Inl DC_STATUS_UNSUPPORTED, tr @ [Release (Iterator it)])"
| "model_loop family model_no it (d # ds) tr =
     (if dc_descriptor_get_type d = family \<and> dc_descriptor_get_model d = model_no
      then (Inr d, tr @ [Acquire (Descriptor d), Release (Iterator it)])
      else model_loop family model_no it ds (tr @ [Acquire (Descriptor d), Release (Descriptor d)]))"

definition find_descriptor_by_model ::
  "env \<Rightarrow> dc_family_t \<Rightarrow> 32 word \<Rightarrow> event list
     \<Rightarrow> (dc_status_t + dc_descriptor_t) \<times> event list"
where
  "find_descriptor_by_model e family model_no tr =
     (let rc = dc_descriptor_iterator e tr in
      if rc \<noteq> DC_STATUS_SUCCESS then (Inl rc, tr)
      else model_loop family model_no (length tr) (catalog e)
             (tr @ [Acquire (Iterator (length tr))]))"

subsection \<open>The BLE stream\<close>

text \<open>
  \<^verbatim>\<open>ble_stream_t\<close>: the base stream's context and transport tag, and the BLE object.
  \<open>stream_id\<close> is the identity of the allocated structure. The vtable is constant
  (its \<^verbatim>\<open>close\<close> entry is \<^verbatim>\<open>ble_stream_close\<close>) and is not a field here.
\<close>

record ble_stream_t =
  stream_id :: nat
  base_context :: "nat option"
  base_transport :: "32 word"
  ble_object :: nat

definition ble_iostream_create ::
  "env \<Rightarrow> nat option \<Rightarrow> nat \<Rightarrow> event list \<Rightarrow> (dc_status_t + ble_stream_t) \<times> event list"
where
  "ble_iostream_create e ctx bleobj tr =
     (if \<not> malloc e tr then (Inl DC_STATUS_NOMEMORY, tr)
      else
        (Inr \<lparr>stream_id = length tr, base_context = ctx,
              base_transport = DC_TRANSPORT_BLE, ble_object = bleobj\<rparr>,
         tr @ [Acquire (Stream (length tr))]))"

text \<open>
  Modelled from the spec: \<^verbatim>\<open>ble_read\<close>, the transport read primitive that
  \<^verbatim>\<open>BLEBridge.h\<close> declares and whose implementation is not among the sources. The spec has
  it return what has arrived so far, up to the requested size, signal a timeout when
  nothing arrives before the deadline, and signal a hard I/O failure distinctly.
  \<open>link_up\<close> tells whether the connection is alive and \<open>arrived\<close> is what the
  notifications deliver before the timeout elapses. The result is the status, the bytes
  copied into the buffer and the count written to \<^verbatim>\<open>*actual\<close>.
\<close>

definition ble_read ::
  "bool \<Rightarrow> 8 word list \<Rightarrow> nat \<Rightarrow> nat \<Rightarrow> dc_status_t \<times> 8 word list \<times> nat"
where
  "ble_read link_up arrived io sz =
     (if \<not> link_up then (DC_STATUS_IO, [], 0)
      else if arrived = [] then (DC_STATUS_TIMEOUT, [], 0)
      else (DC_STATUS_SUCCESS, take sz arrived, min sz (length arrived)))"

text \<open>
  \<^verbatim>\<open>ble_stream_read\<close> over any transport read \<open>rd\<close> (called with the BLE object and the
  size). The nested conditions only guard debugging code that is commented out; what is
  left of it is the unused local \<^verbatim>\<open>length\<close>. \<^verbatim>\<open>actual\<close> is taken to be non-null.
\<close>

definition ble_stream_read ::
  "(nat \<Rightarrow> nat \<Rightarrow> dc_status_t \<times> 8 word list \<times> nat) \<Rightarrow> ble_stream_t \<Rightarrow> nat
     \<Rightarrow> dc_status_t \<times> 8 word list \<times> nat"
where
  "ble_stream_read rd s sz =
     (case rd (ble_object s) sz of
        (rc, packet, actual) \<Rightarrow>
          (let length_field =
             (if rc = DC_STATUS_SUCCESS \<and> actual > 0 then
                (if base_transport s = DC_TRANSPORT_BLE \<and> actual \<ge> 2 then
                   (if actual \<ge> 6 then
                      (if packet ! 2 = 0x01 \<and> packet ! 3 = 0xFF \<and> actual \<ge> 7
                       then Some (ucast (packet ! 4) :: 32 word) else None)
                    else None)
                 else None)
              else None)
           in (rc, packet, actual)))"

text \<open>\<^verbatim>\<open>ble_stream_close\<close>: close the BLE object, free it, free the stream.\<close>

definition ble_stream_close :: "env \<Rightarrow> ble_stream_t \<Rightarrow> event list \<Rightarrow> dc_status_t \<times> event list" where
  "ble_stream_close e s tr =
     (let tr1 = tr @ [BLEClose (ble_object s)];
          rc = ble_close e tr1
      in (rc, tr1 @ [Release (BLEObject (ble_object s)), Release (Stream (stream_id s))]))"

text \<open>libdivecomputer's \<^verbatim>\<open>dc_iostream_close\<close> calls the \<^verbatim>\<open>close\<close> entry of the stream's vtable.\<close>

definition dc_iostream_close :: "env \<Rightarrow> ble_stream_t \<Rightarrow> event list \<Rightarrow> dc_status_t \<times> event list" where
  "dc_iostream_close e s tr = ble_stream_close e s tr"

subsection \<open>\<^verbatim>\<open>ble_packet_open\<close>\<close>

definition ble_packet_open ::
  "env \<Rightarrow> nat option \<Rightarrow> string \<Rightarrow> event list \<Rightarrow> (dc_status_t + ble_stream_t) \<times> event list"
where
  "ble_packet_open e ctx devaddr tr =
     (let tr1 = tr @ [InitializeBLEManager] in
      if \<not> createBLEObject e tr1 then (Inl DC_STATUS_NOMEMORY, tr1)
      else
        (let io = length tr1;
             tr2 = tr1 @ [Acquire (BLEObject io)];
             tr3 = tr2 @ [ConnectToBLEDevice io devaddr]
         in
           if \<not> connectToBLEDevice e tr2 devaddr
           then (Inl DC_STATUS_IO, tr3 @ [Release (BLEObject io)])
           else
             (case ble_iostream_create e ctx io tr3 of
                (Inl status, tr4) \<Rightarrow> (Inl status, tr4 @ [Release (BLEObject io)])
              | (Inr s, tr4) \<Rightarrow> (Inr s, tr4))))"

subsection \<open>The session\<close>

text \<open>libdivecomputer's event payloads (\<^verbatim>\<open>device.h\<close>); all members are \<^verbatim>\<open>unsigned int\<close>, the system time is 64 bits wide.\<close>

record dc_event_devinfo_t =
  devinfo_model :: "32 word"
  firmware :: "32 word"
  serial :: "32 word"

record dc_event_progress_t =
  current :: "32 word"
  maximum :: "32 word"

record dc_event_clock_t =
  devtime :: "32 word"
  systime :: "64 word"

datatype dc_event =
    DC_EVENT_WAITING
  | DC_EVENT_PROGRESS dc_event_progress_t
  | DC_EVENT_DEVINFO dc_event_devinfo_t
  | DC_EVENT_CLOCK dc_event_clock_t
  | DC_EVENT_VENDOR

text \<open>
  \<^verbatim>\<open>device_data_t\<close>, field by field; the field \<^verbatim>\<open>context\<close> is \<open>context'\<close> here. The lookup
  callback returns a pointer and writes the size through its last parameter: its result
  here is \<open>None\<close> for \<^verbatim>\<open>NULL\<close> and otherwise the bytes, whose number is the size written.
\<close>

record device_data_t =
  device :: "nat option"
  context' :: "nat option"
  iostream :: "ble_stream_t option"
  descriptor :: "dc_descriptor_t option"
  have_devinfo :: int
  devinfo :: dc_event_devinfo_t
  have_progress :: int
  progress :: dc_event_progress_t
  have_clock :: int
  clock :: dc_event_clock_t
  fingerprint :: "8 word list option"
  fsize :: "32 word"
  fingerprint_context :: "nat option"
  lookup_fingerprint :: "(nat option \<Rightarrow> string \<Rightarrow> string \<Rightarrow> 8 word list option) option"
  model :: "string option"
  fdeviceid :: "32 word"
  fdiveid :: "32 word"

text \<open>The structure after \<^verbatim>\<open>memset(data, 0, sizeof(device_data_t))\<close> or \<^verbatim>\<open>calloc\<close>.\<close>

definition zeroed :: device_data_t where
  "zeroed =
     \<lparr>device = None, context' = None, iostream = None, descriptor = None,
      have_devinfo = 0, devinfo = \<lparr>devinfo_model = 0, firmware = 0, serial = 0\<rparr>,
      have_progress = 0, progress = \<lparr>current = 0, maximum = 0\<rparr>,
      have_clock = 0, clock = \<lparr>devtime = 0, systime = 0\<rparr>,
      fingerprint = None, fsize = 0, fingerprint_context = None, lookup_fingerprint = None,
      model = None, fdeviceid = 0, fdiveid = 0\<rparr>"

subsection \<open>Formatting the serial number\<close>

definition hex_digit :: "nat \<Rightarrow> char" where
  "hex_digit d = ''0123456789abcdef'' ! d"

fun hex_of_nat :: "nat \<Rightarrow> string" where
  "hex_of_nat n = (if n < 16 then [hex_digit n] else hex_of_nat (n div 16) @ [hex_digit (n mod 16)])"

declare hex_of_nat.simps [simp del]

text \<open>The conversion \<^verbatim>\<open>%08x\<close> of an \<^verbatim>\<open>unsigned int\<close>: lowercase hexadecimal, zero-padded to at least eight digits.\<close>

definition format_08x :: "32 word \<Rightarrow> string" where
  "format_08x w =
     (let digits = hex_of_nat (unat w) in replicate (8 - length digits) CHR ''0'' @ digits)"

text \<open>\<^verbatim>\<open>snprintf(buf, size, "%08x", w)\<close> keeps at most \<open>size - 1\<close> characters.\<close>

definition snprintf_08x :: "nat \<Rightarrow> 32 word \<Rightarrow> string" where
  "snprintf_08x sz w = take (sz - 1) (format_08x w)"

text \<open>Reading a hexadecimal string back, to say what a formatted serial denotes.\<close>

definition digit_value :: "char \<Rightarrow> nat" where
  "digit_value c = length (takeWhile (\<lambda>x. x \<noteq> c) ''0123456789abcdef'')"

definition hex_value :: "string \<Rightarrow> nat" where
  "hex_value s = foldl (\<lambda>a c. 16 * a + digit_value c) 0 s"

subsection \<open>\<^verbatim>\<open>ble_device_event_cb\<close>\<close>

text \<open>
  The callback gets the device handle, the event with its payload and the user data
  pointer. The status that \<^verbatim>\<open>dc_device_set_fingerprint\<close> returns is only printed.
\<close>

definition ble_device_event_cb ::
  "nat \<Rightarrow> dc_event \<Rightarrow> device_data_t option \<Rightarrow> event list \<Rightarrow> device_data_t option \<times> event list"
where
  "ble_device_event_cb dev ev userdata tr =
     (case userdata of
        None \<Rightarrow> (None, tr)
      | Some devdata \<Rightarrow>
          (case ev of
             DC_EVENT_DEVINFO info \<Rightarrow>
               (let devdata1 = devdata\<lparr>devinfo := info, have_devinfo := 1\<rparr> in
                case lookup_fingerprint devdata1 of
                  None \<Rightarrow> (Some devdata1, tr)
                | Some lookup \<Rightarrow>
                    (case model devdata1 of
                       None \<Rightarrow> (Some devdata1, tr)
                     | Some label \<Rightarrow>
                         (let serial_str = snprintf_08x 16 (serial info);
                              found = lookup (fingerprint_context devdata1) label serial_str;
                              tr1 = tr @ [LookupFingerprint (fingerprint_context devdata1) label serial_str]
                          in
                            case found of
                              None \<Rightarrow> (Some devdata1, tr1)
                            | Some bytes \<Rightarrow>
                                if length bytes > 0
                                then
                                  (Some (devdata1\<lparr>fingerprint := Some bytes,
                                                  fsize := word_of_nat (length bytes)\<rparr>),
                                   tr1 @ [SetFingerprint dev bytes (length bytes)])
                                else (Some devdata1, tr1))))
           | DC_EVENT_PROGRESS p \<Rightarrow>
               (Some (devdata\<lparr>progress := p, have_progress := 1\<rparr>), tr)
           | _ \<Rightarrow> (Some devdata, tr)))"

subsection \<open>\<^verbatim>\<open>close_device_data\<close>\<close>

text \<open>
  Five guarded releases in the order of the source, each followed by nulling the field;
  the descriptor field is nulled without a call to \<^verbatim>\<open>dc_descriptor_free\<close>.
\<close>

definition close_device_data ::
  "env \<Rightarrow> device_data_t option \<Rightarrow> event list \<Rightarrow> device_data_t option \<times> event list"
where
  "close_device_data e data tr =
     (case data of
        None \<Rightarrow> (None, tr)
      | Some d0 \<Rightarrow>
          (let (d1, tr1) =
                 (case fingerprint d0 of
                    None \<Rightarrow> (d0, tr)
                  | Some fp \<Rightarrow> (d0\<lparr>fingerprint := None, fsize := 0\<rparr>, tr @ [Release (Fingerprint fp)]));
               (d2, tr2) =
                 (case model d1 of
                    None \<Rightarrow> (d1, tr1)
                  | Some label \<Rightarrow> (d1\<lparr>model := None\<rparr>, tr1 @ [Release (Label label)]));
               (d3, tr3) =
                 (case device d2 of
                    None \<Rightarrow> (d2, tr2)
                  | Some dev \<Rightarrow> (d2\<lparr>device := None\<rparr>, tr2 @ [Release (Device dev)]));
               (d4, tr4) =
                 (case iostream d3 of
                    None \<Rightarrow> (d3, tr3)
                  | Some s \<Rightarrow> (d3\<lparr>iostream := None\<rparr>, snd (dc_iostream_close e s tr3)));
               (d5, tr5) =
                 (case context' d4 of
                    None \<Rightarrow> (d4, tr4)
                  | Some c \<Rightarrow> (d4\<lparr>context' := None\<rparr>, tr4 @ [Release (Context c)]))
           in (Some (d5\<lparr>descriptor := None\<rparr>), tr5)))"

subsection \<open>\<^verbatim>\<open>open_ble_device\<close>\<close>

text \<open>
  The label \<^verbatim>\<open>"Vendor Product"\<close> stored at the end of a successful open; a failed
  allocation leaves the field null and the open still succeeds.
\<close>

definition store_model ::
  "env \<Rightarrow> dc_descriptor_t \<Rightarrow> device_data_t \<Rightarrow> event list \<Rightarrow> device_data_t \<times> event list"
where
  "store_model e desc d tr =
     (case dc_descriptor_get_vendor desc of
        None \<Rightarrow> (d, tr)
      | Some v \<Rightarrow>
          (case dc_descriptor_get_product desc of
             None \<Rightarrow> (d, tr)
           | Some p \<Rightarrow>
               if malloc e tr
               then (d\<lparr>model := Some (v @ '' '' @ p)\<rparr>, tr @ [Acquire (Label (v @ '' '' @ p))])
               else (d, tr)))"

text \<open>
  The result is the status, the caller's structure as the call leaves it, and the trace.
  \<^verbatim>\<open>dc_context_new\<close> and \<^verbatim>\<open>dc_device_open\<close> write their handle on success only. The
  parameter \<^verbatim>\<open>model\<close> is \<open>model_no\<close> here, and the local \<^verbatim>\<open>descriptor\<close> is \<open>desc\<close>.
\<close>

definition open_ble_device ::
  "env \<Rightarrow> device_data_t option \<Rightarrow> string option \<Rightarrow> dc_family_t \<Rightarrow> 32 word \<Rightarrow> event list
     \<Rightarrow> dc_status_t \<times> device_data_t option \<times> event list"
where
  "open_ble_device e data devaddr family model_no tr =
     (case data of
        None \<Rightarrow> (DC_STATUS_INVALIDARGS, None, tr)
      | Some old \<Rightarrow>
     (case devaddr of
        None \<Rightarrow> (DC_STATUS_INVALIDARGS, Some old, tr)
      | Some addr \<Rightarrow>
     (let rc = dc_context_new e tr in
      if rc \<noteq> DC_STATUS_SUCCESS then (rc, Some zeroed, tr)
      else
     (let d1 = zeroed\<lparr>context' := Some (length tr)\<rparr>;
          tr1 = tr @ [Acquire (Context (length tr))]
      in
      case find_descriptor_by_model e family model_no tr1 of
        (Inl rc, tr2) \<Rightarrow>
          (case close_device_data e (Some d1) tr2 of (d', tr') \<Rightarrow> (rc, d', tr'))
      | (Inr desc, tr2) \<Rightarrow>
     (case ble_packet_open e (context' d1) addr tr2 of
        (Inl rc, tr3) \<Rightarrow>
          (case close_device_data e (Some d1) tr3 of (d', tr') \<Rightarrow> (rc, d', tr'))
      | (Inr s, tr3) \<Rightarrow>
     (let d2 = d1\<lparr>iostream := Some s\<rparr>;
          rc = dc_device_open e tr3 desc
      in
      if rc \<noteq> DC_STATUS_SUCCESS
      then (case close_device_data e (Some d2) tr3 of (d', tr') \<Rightarrow> (rc, d', tr'))
      else
     (let d3 = d2\<lparr>device := Some (length tr3)\<rparr>;
          tr4 = tr3 @ [Acquire (Device (length tr3))];
          rc = dc_device_set_events e tr4;
          tr5 = tr4 @ [SetEvents (length tr3)]
      in
      if rc \<noteq> DC_STATUS_SUCCESS
      then (case close_device_data e (Some d3) tr5 of (d', tr') \<Rightarrow> (rc, d', tr'))
      else
        (case store_model e desc (d3\<lparr>descriptor := Some desc\<rparr>) tr5 of
           (d4, tr6) \<Rightarrow> (DC_STATUS_SUCCESS, Some d4, tr6)))))))))"

subsection \<open>\<^verbatim>\<open>open_ble_device_with_identification\<close>\<close>

text \<open>
  The part after the attempt with the stored pair: resolve the name, open with the
  resolved pair, and free the session structure on either failure.
\<close>

definition identify_and_open ::
  "env \<Rightarrow> nat \<Rightarrow> device_data_t option \<Rightarrow> string \<Rightarrow> string option \<Rightarrow> event list
     \<Rightarrow> (dc_status_t + device_data_t option) \<times> event list"
where
  "identify_and_open e session data name address tr =
     (case get_device_info_from_name e name tr of
        (Inl rc, tr1) \<Rightarrow> (Inl rc, tr1 @ [Release (Session session)])
      | (Inr (family, model_no), tr1) \<Rightarrow>
          (case open_ble_device e data address family model_no tr1 of
             (rc, data', tr2) \<Rightarrow>
               if rc \<noteq> DC_STATUS_SUCCESS then (Inl rc, tr2 @ [Release (Session session)])
               else (Inr data', tr2)))"

text \<open>\<open>Inr data\<close> is \<^verbatim>\<open>DC_STATUS_SUCCESS\<close> with the session written to \<^verbatim>\<open>*out_data\<close>.\<close>

definition open_ble_device_with_identification ::
  "env \<Rightarrow> string \<Rightarrow> string option \<Rightarrow> dc_family_t \<Rightarrow> 32 word \<Rightarrow> event list
     \<Rightarrow> (dc_status_t + device_data_t option) \<times> event list"
where
  "open_ble_device_with_identification e name address stored_family stored_model tr =
     (if \<not> malloc e tr then (Inl DC_STATUS_NOMEMORY, tr)
      else
        (let session = length tr;
             tr0 = tr @ [Acquire (Session session)];
             data = Some zeroed
         in
           if stored_family \<noteq> DC_FAMILY_NULL \<and> stored_model \<noteq> 0 then
             (case open_ble_device e data address stored_family stored_model tr0 of
                (rc, data', tr1) \<Rightarrow>
                  if rc = DC_STATUS_SUCCESS then (Inr data', tr1)
                  else identify_and_open e session data' name address tr1)
           else identify_and_open e session data name address tr0))"

subsection \<open>Order of the table\<close>

text \<open>No entry's key is contained in the key of an entry listed after it.\<close>

fun earlier_not_broader :: "name_pattern list \<Rightarrow> bool" where
  "earlier_not_broader [] = True"
| "earlier_not_broader (p # ps) =
     (list_all (\<lambda>q. \<not> sublist (prefix_np p) (prefix_np q)) ps \<and> earlier_not_broader ps)"

subsection \<open>Sample data\<close>

text \<open>An environment in which every external call succeeds, over a given catalog; no filter accepts.\<close>

definition env_ok :: "dc_descriptor_t list \<Rightarrow> env" where
  "env_ok ds =
     \<lparr>dc_descriptor_iterator = (\<lambda>_. DC_STATUS_SUCCESS), catalog = ds,
      dc_descriptor_filter = (\<lambda>_ _ _. False), dc_context_new = (\<lambda>_. DC_STATUS_SUCCESS),
      createBLEObject = (\<lambda>_. True), connectToBLEDevice = (\<lambda>_ _. True), malloc = (\<lambda>_. True),
      dc_device_open = (\<lambda>_ _. DC_STATUS_SUCCESS), dc_device_set_events = (\<lambda>_. DC_STATUS_SUCCESS),
      ble_close = (\<lambda>_. DC_STATUS_SUCCESS)\<rparr>"

text \<open>A Shearwater descriptor of the Petrel family, reachable over Bluetooth and BLE.\<close>

definition shearwater :: "string \<Rightarrow> 32 word \<Rightarrow> dc_descriptor_t" where
  "shearwater p m =
     \<lparr>dc_descriptor_get_vendor = Some ''Shearwater'', dc_descriptor_get_product = Some p,
      dc_descriptor_get_type = 655361, dc_descriptor_get_model = m,
      dc_descriptor_get_transports = 48\<rparr>"

text \<open>The same environment over a one-entry catalog, with a connection that never succeeds.\<close>

definition env_no_connect :: env where
  "env_no_connect = (env_ok [shearwater ''Perdix'' 5])\<lparr>connectToBLEDevice := (\<lambda>_ _. False)\<rparr>"


text \<open>The Suunto EON Steel, reachable over USB HID and BLE.\<close>

definition suunto_eon_steel :: dc_descriptor_t where
  "suunto_eon_steel =
     \<lparr>dc_descriptor_get_vendor = Some ''Suunto'', dc_descriptor_get_product = Some ''EON Steel'',
      dc_descriptor_get_type = 65541, dc_descriptor_get_model = 0,
      dc_descriptor_get_transports = 36\<rparr>"

text \<open>
  An open session and the trace that created it: what \<^verbatim>\<open>open_ble_device\<close> returns for the EON
  Steel from an empty trace, with a lookup callback that knows one fingerprint.
\<close>

definition sample_stream :: ble_stream_t where
  "sample_stream =
     \<lparr>stream_id = 7, base_context = Some 0, base_transport = DC_TRANSPORT_BLE, ble_object = 5\<rparr>"

definition sample_lookup :: "nat option \<Rightarrow> string \<Rightarrow> string \<Rightarrow> 8 word list option" where
  "sample_lookup ctx device_type serial_str =
     (if device_type = ''Suunto EON Steel'' \<and> serial_str = ''deadbeef'' then Some [0xAA, 0xBB]
      else None)"

definition sample_session :: device_data_t where
  "sample_session =
     zeroed\<lparr>device := Some 8, context' := Some 0, iostream := Some sample_stream,
             descriptor := Some suunto_eon_steel,
             lookup_fingerprint := Some sample_lookup, model := Some ''Suunto EON Steel''\<rparr>"

definition sample_trace :: "event list" where
  "sample_trace =
     [Acquire (Context 0), Acquire (Iterator 1), Acquire (Descriptor suunto_eon_steel),
      Release (Iterator 1), InitializeBLEManager, Acquire (BLEObject 5),
      ConnectToBLEDevice 5 ''AA:BB'', Acquire (Stream 7), Acquire (Device 8), SetEvents 8,
      Acquire (Label ''Suunto EON Steel'')]"

text \<open>Two Shearwater models in the catalog; only the one with model number 11 can be opened.\<close>

definition env_only_perdix_2 :: env where
  "env_only_perdix_2 =
     (env_ok [shearwater ''Perdix'' 5, shearwater ''Perdix 2'' 11])
       \<lparr>dc_device_open :=
          (\<lambda>_ d. if dc_descriptor_get_model d = 11 then DC_STATUS_SUCCESS
                  else DC_STATUS_PROTOCOL)\<rparr>"

text \<open>The model label of the session that an open with identification returned, if it returned one.\<close>

definition opened_label ::
  "(dc_status_t + device_data_t option) \<times> event list \<Rightarrow> string option"
where
  "opened_label r = (case fst r of Inr (Some d) \<Rightarrow> model d | _ \<Rightarrow> None)"

section \<open>Properties\<close>

subsection \<open>String functions\<close>

lemma strstr_sublist: "strstr h n \<noteq> None \<longleftrightarrow> sublist n h"
  by (induction h) (auto simp: sublist_Cons_right)

lemma strcmp_eq: "strcmp a b = 0 \<longleftrightarrow> a = b"
  by (induction a b rule: strcmp.induct) auto

lemma strncmp_take: "strncmp s k n = 0 \<longleftrightarrow> take n s = take n k"
  by (induction s k n rule: strncmp.induct) auto

lemma strncmp_prefix: "strncmp s k (strlen k) = 0 \<longleftrightarrow> prefix k s"
  by (auto simp: strncmp_take strlen_def prefix_def) (metis append_eq_conv_conj)+

subsection \<open>The match test\<close>

lemma matches_iff:
  "matches p name \<longleftrightarrow>
     (if match_type p = MATCH_PREFIX then prefix (prefix_np p) name
      else sublist (prefix_np p) name)"
  by (cases "match_type p")
     (simp_all add: matches_def strncmp_prefix strstr_sublist del: not_None_eq)

lemma matches_sublist: "matches p name \<Longrightarrow> sublist (prefix_np p) name"
  by (auto simp: matches_iff split: if_splits)

lemma matches_own_key: "matches p (prefix_np p)"
  by (simp add: matches_iff)

text \<open>
  C4. For every name and every key, the match test of an entry in mode \<^verbatim>\<open>MATCH_EXACT\<close>
  accepts the name exactly when the test of the same entry in mode \<^verbatim>\<open>MATCH_CONTAINS\<close>
  does, and both are the test whether the key is a substring of the name; as functions of
  the entry and the name the two modes are equal.
\<close>

theorem exact_and_contains_are_the_same_test:
  "matches (p\<lparr>match_type := MATCH_EXACT\<rparr>) name = matches (p\<lparr>match_type := MATCH_CONTAINS\<rparr>) name
   \<and> matches (p\<lparr>match_type := MATCH_EXACT\<rparr>) name = sublist (prefix_np p) name
   \<and> matches (p\<lparr>match_type := MATCH_CONTAINS\<rparr>) name = sublist (prefix_np p) name
   \<and> (\<lambda>p name. matches (p\<lparr>match_type := MATCH_EXACT\<rparr>) name)
       = (\<lambda>p name. matches (p\<lparr>match_type := MATCH_CONTAINS\<rparr>) name)"
  by (simp add: matches_iff)

subsection \<open>Name resolution\<close>

lemma descriptor_is_iff:
  "descriptor_is p d \<longleftrightarrow>
     dc_descriptor_get_vendor d = Some (vendor p) \<and> dc_descriptor_get_product d = Some (product p)"
  by (auto simp: descriptor_is_def strcmp_eq split: option.splits)

lemma find_descriptor_is_fields:
  "find (descriptor_is p) ds = Some d \<Longrightarrow>
     d \<in> set ds \<and> dc_descriptor_get_vendor d = Some (vendor p)
       \<and> dc_descriptor_get_product d = Some (product p)"
  by (auto simp: find_Some_iff descriptor_is_iff)

text \<open>The inner loop returns the first descriptor of the catalog with the entry's vendor and product.\<close>

lemma catalog_loop_find: "fst (catalog_loop p it ds tr) = find (descriptor_is p) ds"
  by (induction ds arbitrary: tr) auto

text \<open>
  The outer loop, when no iterator creation fails: the first entry that accepts the name
  and that the catalog holds decides.
\<close>

lemma patterns_loop_first:
  assumes it: "\<forall>t. dc_descriptor_iterator e t = DC_STATUS_SUCCESS"
  shows "find (\<lambda>p. matches p name \<and> find (descriptor_is p) (catalog e) \<noteq> None) ps = Some p \<Longrightarrow>
     find (descriptor_is p) (catalog e) = Some d \<Longrightarrow>
     fst (patterns_loop e ps name tr) = Inr d"
proof (induction ps arbitrary: tr)
  case Nil
  then show ?case by simp
next
  case (Cons q qs)
  obtain r tr' where cl:
    "catalog_loop q (length tr) (catalog e) (tr @ [Acquire (Iterator (length tr))]) = (r, tr')"
    by fastforce
  have r: "r = find (descriptor_is q) (catalog e)"
    using catalog_loop_find [of q "length tr" "catalog e" "tr @ [Acquire (Iterator (length tr))]"] cl
    by simp
  show ?case
    using Cons it cl r by (auto split: option.splits if_splits)
qed

lemma patterns_loop_skip:
  "\<forall>q \<in> set qs. \<not> matches q name \<Longrightarrow>
     patterns_loop e (qs @ ps) name tr = patterns_loop e ps name tr"
  by (induction qs) auto

lemma patterns_loop_hit:
  assumes "matches p name"
    and "dc_descriptor_iterator e tr = DC_STATUS_SUCCESS"
    and "find (descriptor_is p) (catalog e) = Some d"
  shows "fst (patterns_loop e (p # ps) name tr) = Inr d"
proof -
  obtain r tr' where cl:
    "catalog_loop p (length tr) (catalog e) (tr @ [Acquire (Iterator (length tr))]) = (r, tr')"
    by fastforce
  have "r = Some d"
    using catalog_loop_find [of p "length tr" "catalog e" "tr @ [Acquire (Iterator (length tr))]"]
      cl assms(3) by simp
  with assms cl show ?thesis by simp
qed

lemma first_match_is_find:
  assumes "i < length ps" and "P (ps ! i)" and "\<forall>k<i. \<not> P (ps ! k)"
  shows "find P ps = Some (ps ! i)"
  using assms by (auto simp: find_Some_iff)

text \<open>When no entry before the accepted one accepts the name, one iterator is created.\<close>

lemma first_accepted_entry:
  assumes it: "dc_descriptor_iterator e tr = DC_STATUS_SUCCESS"
    and i: "i < length name_patterns"
    and m: "matches (name_patterns ! i) name"
    and first: "\<forall>k<i. \<not> matches (name_patterns ! k) name"
    and d: "find (descriptor_is (name_patterns ! i)) (catalog e) = Some d"
  shows "fst (find_descriptor_by_name e name tr) = Inr d"
proof -
  have split: "name_patterns = take i name_patterns @ name_patterns ! i # drop (Suc i) name_patterns"
    using i by (rule id_take_nth_drop)
  have "\<forall>q \<in> set (take i name_patterns). \<not> matches q name"
    using first i by (auto simp: in_set_conv_nth)
  then have "patterns_loop e name_patterns name tr
      = patterns_loop e (name_patterns ! i # drop (Suc i) name_patterns) name tr"
    using patterns_loop_skip [of "take i name_patterns" name e
        "name_patterns ! i # drop (Suc i) name_patterns" tr] split
    by simp
  with patterns_loop_hit [OF m it d] show ?thesis
    by (simp add: find_descriptor_by_name_def)
qed

subsection \<open>The order of the table\<close>

lemma length_name_patterns: "length name_patterns = 47"
  by (simp add: name_patterns_def)

lemma earlier_not_broader_nth:
  "earlier_not_broader ps \<Longrightarrow> k < i \<Longrightarrow> i < length ps \<Longrightarrow>
     \<not> sublist (prefix_np (ps ! k)) (prefix_np (ps ! i))"
proof (induction ps arbitrary: k i)
  case Nil
  then show ?case by simp
next
  case (Cons p ps)
  then show ?case
    by (cases k; cases i) (auto simp: list_all_length)
qed

lemma name_patterns_order: "earlier_not_broader name_patterns"
  by code_simp

text \<open>
  C1. \<^verbatim>\<open>find_descriptor_by_name\<close> tries the table entries in their declared order, and the
  first entry that accepts the name and whose vendor and product the catalog holds decides
  the result: an accepted entry that the catalog does not hold is passed over. So, when
  no iterator creation fails and the catalog holds a descriptor \<open>d\<close> for entry \<open>i\<close>: every
  name that entry \<open>i\<close> accepts, and that no earlier entry held by the catalog accepts,
  resolves to \<open>d\<close>; and since no key of the table contains the key of an earlier entry, the
  name equal to the key of entry \<open>i\<close> resolves to \<open>d\<close>, not to a broader entry listed later.
\<close>

theorem first_entry_held_by_catalog_decides:
  assumes it: "\<forall>t. dc_descriptor_iterator e t = DC_STATUS_SUCCESS"
    and i: "i < length name_patterns"
    and d: "find (descriptor_is (name_patterns ! i)) (catalog e) = Some d"
  shows
    "(matches (name_patterns ! i) name
        \<and> (\<forall>k<i. matches (name_patterns ! k) name
                \<longrightarrow> find (descriptor_is (name_patterns ! k)) (catalog e) = None)
      \<longrightarrow> fst (find_descriptor_by_name e name tr) = Inr d)
     \<and> fst (find_descriptor_by_name e (prefix_np (name_patterns ! i)) tr) = Inr d
     \<and> dc_descriptor_get_vendor d = Some (vendor (name_patterns ! i))
     \<and> dc_descriptor_get_product d = Some (product (name_patterns ! i))"
proof -
  let ?P = "\<lambda>n p. matches p n \<and> find (descriptor_is p) (catalog e) \<noteq> None"
  have general: "fst (find_descriptor_by_name e n tr) = Inr d"
    if "matches (name_patterns ! i) n"
      and "\<forall>k<i. matches (name_patterns ! k) n
              \<longrightarrow> find (descriptor_is (name_patterns ! k)) (catalog e) = None"
    for n
  proof -
    have "find (?P n) name_patterns = Some (name_patterns ! i)"
      using i d that by (intro first_match_is_find) auto
    from patterns_loop_first [OF it this d] show ?thesis
      by (simp add: find_descriptor_by_name_def)
  qed
  have own: "fst (find_descriptor_by_name e (prefix_np (name_patterns ! i)) tr) = Inr d"
  proof (rule general)
    show "matches (name_patterns ! i) (prefix_np (name_patterns ! i))"
      by (rule matches_own_key)
    show "\<forall>k<i. matches (name_patterns ! k) (prefix_np (name_patterns ! i))
            \<longrightarrow> find (descriptor_is (name_patterns ! k)) (catalog e) = None"
      using earlier_not_broader_nth [OF name_patterns_order _ i] matches_sublist by blast
  qed
  from general own find_descriptor_is_fields [OF d] show ?thesis by blast
qed

text \<open>
  The theorem at the name \<^verbatim>\<open>"Perdix 2"\<close> over a catalog that lists Perdix before Perdix 2:
  entry 1 of the table decides.
\<close>

theorem first_entry_held_by_catalog_decides_witness:
  "prefix_np (name_patterns ! 1) = ''Perdix 2''
   \<and> fst (find_descriptor_by_name
            (env_ok [shearwater ''Perdix'' 5, shearwater ''Perdix 2'' 11]) ''Perdix 2'' [])
       = Inr (shearwater ''Perdix 2'' 11)
   \<and> dc_descriptor_get_product (shearwater ''Perdix 2'' 11) = Some ''Perdix 2''"
proof -
  let ?e = "env_ok [shearwater ''Perdix'' 5, shearwater ''Perdix 2'' 11]"
  have it: "\<forall>t. dc_descriptor_iterator ?e t = DC_STATUS_SUCCESS"
    by (simp add: env_ok_def)
  have i: "1 < length name_patterns"
    by (simp add: length_name_patterns)
  have d: "find (descriptor_is (name_patterns ! 1)) (catalog ?e) = Some (shearwater ''Perdix 2'' 11)"
    by code_simp
  have key: "prefix_np (name_patterns ! 1) = ''Perdix 2''"
    by code_simp
  have res: "fst (find_descriptor_by_name ?e (prefix_np (name_patterns ! 1)) [])
      = Inr (shearwater ''Perdix 2'' 11)"
    using first_entry_held_by_catalog_decides [OF it i d, of "''Perdix 2''" "[]"] by blast
  have prod: "dc_descriptor_get_product (shearwater ''Perdix 2'' 11) = Some ''Perdix 2''"
    by (simp add: shearwater_def)
  from key res [unfolded key] prod show ?thesis
    by (intro conjI)
qed

text \<open>
  Over a catalog that holds Perdix but not Perdix 2, the name \<^verbatim>\<open>"Perdix 2"\<close> is accepted
  by entry 1 (key and product \<^verbatim>\<open>"Perdix 2"\<close>), whose catalog search finds nothing, and
  resolves to the broader entry 4 (key and product \<^verbatim>\<open>"Perdix"\<close>) listed later.
\<close>

theorem perdix_2_falls_through_to_perdix:
  "matches (name_patterns ! 1) ''Perdix 2''
   \<and> prefix_np (name_patterns ! 1) = ''Perdix 2''
   \<and> product (name_patterns ! 1) = ''Perdix 2''
   \<and> prefix_np (name_patterns ! 4) = ''Perdix''
   \<and> product (name_patterns ! 4) = ''Perdix''
   \<and> fst (find_descriptor_by_name (env_ok [shearwater ''Perdix'' 5]) ''Perdix 2'' [])
       = Inr (shearwater ''Perdix'' 5)"
  by code_simp

lemma peregrine_entry:
  "name_patterns ! 7 = \<lparr>prefix_np = ''Peregrine'', vendor = ''Shearwater'',
      product = ''Peregrine TX'', match_type = MATCH_EXACT\<rparr>"
  by (simp add: name_patterns_def)

lemma peregrine_not_before:
  "list_all (\<lambda>q. \<not> matches q ''Peregrine'') (take 7 name_patterns)"
  by code_simp

lemma peregrine_accepted: "matches (name_patterns ! 7) ''Peregrine''"
  by code_simp

text \<open>
  C8. The name \<^verbatim>\<open>"Peregrine"\<close> resolves to the descriptor with vendor \<^verbatim>\<open>"Shearwater"\<close> and
  product \<^verbatim>\<open>"Peregrine TX"\<close>, not to one with product \<^verbatim>\<open>"Peregrine"\<close>: the first entry that
  accepts the name is the one with key \<^verbatim>\<open>"Peregrine"\<close>, whose product is \<^verbatim>\<open>"Peregrine TX"\<close>.
  The catalog is a parameter: the iterator is taken to be created and the catalog to hold
  such a descriptor, of which the first is returned.
\<close>

theorem peregrine_resolves_to_peregrine_tx:
  assumes it: "dc_descriptor_iterator e tr = DC_STATUS_SUCCESS"
    and d: "find (\<lambda>d. dc_descriptor_get_vendor d = Some ''Shearwater''
                     \<and> dc_descriptor_get_product d = Some ''Peregrine TX'') (catalog e) = Some d"
  shows "fst (find_descriptor_by_name e ''Peregrine'' tr) = Inr d
     \<and> dc_descriptor_get_vendor d = Some ''Shearwater''
     \<and> dc_descriptor_get_product d = Some ''Peregrine TX''
     \<and> dc_descriptor_get_product d \<noteq> Some ''Peregrine''"
proof -
  have i: "7 < length name_patterns"
    by (simp add: length_name_patterns)
  note m = peregrine_accepted
  have first: "\<forall>k<7. \<not> matches (name_patterns ! k) ''Peregrine''"
    using peregrine_not_before by (simp add: list_all_length length_name_patterns)
  have "descriptor_is (name_patterns ! 7)
      = (\<lambda>d. dc_descriptor_get_vendor d = Some ''Shearwater''
            \<and> dc_descriptor_get_product d = Some ''Peregrine TX'')"
    by (simp add: fun_eq_iff descriptor_is_iff peregrine_entry)
  with d have d': "find (descriptor_is (name_patterns ! 7)) (catalog e) = Some d"
    by simp
  from first_accepted_entry [OF it i m first d'] d show ?thesis
    by (auto simp: find_Some_iff)
qed

text \<open>The theorem over a catalog that lists the Peregrine before the Peregrine TX.\<close>

theorem peregrine_resolves_to_peregrine_tx_witness:
  "fst (find_descriptor_by_name
          (env_ok [shearwater ''Peregrine'' 9, shearwater ''Peregrine TX'' 13]) ''Peregrine'' [])
     = Inr (shearwater ''Peregrine TX'' 13)
   \<and> dc_descriptor_get_product (shearwater ''Peregrine TX'' 13) = Some ''Peregrine TX''"
proof -
  let ?e = "env_ok [shearwater ''Peregrine'' 9, shearwater ''Peregrine TX'' 13]"
  have it: "dc_descriptor_iterator ?e [] = DC_STATUS_SUCCESS"
    by (simp add: env_ok_def)
  have d: "find (\<lambda>d. dc_descriptor_get_vendor d = Some ''Shearwater''
                    \<and> dc_descriptor_get_product d = Some ''Peregrine TX'') (catalog ?e)
             = Some (shearwater ''Peregrine TX'' 13)"
    by (simp add: env_ok_def shearwater_def)
  from peregrine_resolves_to_peregrine_tx [OF it d] show ?thesis
    by simp
qed

subsection \<open>The stream adapter\<close>

text \<open>
  C7. The adapter's read returns the status, the bytes and the count of the transport read
  unchanged, whatever the transport read is. With the transport read of the spec: a read
  that delivers some bytes, fewer than requested, returns success with the number of bytes
  delivered; a read for which nothing arrives before the timeout returns the timeout status.
\<close>

theorem ble_stream_read_passes_through:
  "ble_stream_read rd s sz = rd (ble_object s) sz
   \<and> (arrived \<noteq> [] \<and> length arrived < sz \<longrightarrow>
        ble_stream_read (ble_read True arrived) s sz
          = (DC_STATUS_SUCCESS, arrived, length arrived))
   \<and> ble_stream_read (ble_read True []) s sz = (DC_STATUS_TIMEOUT, [], 0)"
  by (auto simp: ble_stream_read_def ble_read_def Let_def split: prod.splits)

text \<open>Three bytes arrive where twenty were requested; then nothing arrives.\<close>

theorem ble_stream_read_passes_through_witness:
  "ble_stream_read (ble_read True [0x01, 0xFF, 0x05]) sample_stream 20
     = (DC_STATUS_SUCCESS, [0x01, 0xFF, 0x05], 3)
   \<and> ble_stream_read (ble_read True []) sample_stream 20 = (DC_STATUS_TIMEOUT, [], 0)"
  using ble_stream_read_passes_through
    [of "ble_read True [0x01, 0xFF, 0x05]" sample_stream 20 "[0x01, 0xFF, 0x05]"]
  by (simp add: ble_read_def)

subsection \<open>Traces and live resources\<close>

lemma live_append: "live (tr @ es) = foldl live_step (live tr) es"
  by (simp add: live_def)

lemma model_loop_live:
  "live tr = Iterator it # rs \<Longrightarrow>
     live (snd (model_loop f m it ds tr))
       = (case fst (model_loop f m it ds tr) of Inl _ \<Rightarrow> rs | Inr d \<Rightarrow> Descriptor d # rs)"
  by (induction ds arbitrary: tr) (simp_all add: live_append)


text \<open>
  \<^verbatim>\<open>find_descriptor_by_model\<close> frees its iterator and every descriptor it passes over; the
  descriptor it returns stays live, for the caller to free.
\<close>

lemma find_descriptor_by_model_live:
  "live (snd (find_descriptor_by_model e f m tr))
     = (case fst (find_descriptor_by_model e f m tr) of
          Inl _ \<Rightarrow> live tr | Inr d \<Rightarrow> Descriptor d # live tr)"
  by (simp add: find_descriptor_by_model_def Let_def model_loop_live live_append)


text \<open>A failed \<^verbatim>\<open>ble_packet_open\<close> leaves nothing live; a successful one the BLE object and the stream.\<close>

lemma ble_packet_open_live:
  "live (snd (ble_packet_open e ctx addr tr))
     = (case fst (ble_packet_open e ctx addr tr) of
          Inl _ \<Rightarrow> live tr
        | Inr s \<Rightarrow> Stream (stream_id s) # BLEObject (ble_object s) # live tr)"
  by (simp add: ble_packet_open_def ble_iostream_create_def Let_def live_append)


subsection \<open>Closing a session\<close>

lemma close_device_data_eq:
  "close_device_data e (Some d) tr =
     (Some (d\<lparr>fingerprint := None, fsize := (case fingerprint d of None \<Rightarrow> fsize d | Some _ \<Rightarrow> 0),
             model := None, device := None, iostream := None, context' := None,
             descriptor := None\<rparr>),
      tr @ (case fingerprint d of None \<Rightarrow> [] | Some fp \<Rightarrow> [Release (Fingerprint fp)])
         @ (case model d of None \<Rightarrow> [] | Some label \<Rightarrow> [Release (Label label)])
         @ (case device d of None \<Rightarrow> [] | Some dev \<Rightarrow> [Release (Device dev)])
         @ (case iostream d of None \<Rightarrow> []
            | Some s \<Rightarrow> [BLEClose (ble_object s), Release (BLEObject (ble_object s)),
                         Release (Stream (stream_id s))])
         @ (case context' d of None \<Rightarrow> [] | Some c \<Rightarrow> [Release (Context c)]))"
  by (simp add: close_device_data_def dc_iostream_close_def ble_stream_close_def Let_def
      split: option.splits)


text \<open>
  What closing does, for every session: it releases, in this order and each only if its
  field is non-null, the fingerprint bytes, the model label, the device handle, the stream
  (closing and freeing its BLE object, then freeing the stream) and the context, and
  nothing else; in the session it leaves, the six pointer fields, the descriptor's among
  them, are null, and the fingerprint size is zero once a fingerprint has been freed.
  Closing a null session does nothing.
\<close>

lemma close_device_data_order:
  "close_device_data e (Some d) tr =
     (Some (d\<lparr>fingerprint := None, fsize := (case fingerprint d of None \<Rightarrow> fsize d | Some _ \<Rightarrow> 0),
             model := None, device := None, iostream := None, context' := None,
             descriptor := None\<rparr>),
      tr @ (case fingerprint d of None \<Rightarrow> [] | Some fp \<Rightarrow> [Release (Fingerprint fp)])
         @ (case model d of None \<Rightarrow> [] | Some label \<Rightarrow> [Release (Label label)])
         @ (case device d of None \<Rightarrow> [] | Some dev \<Rightarrow> [Release (Device dev)])
         @ (case iostream d of None \<Rightarrow> []
            | Some s \<Rightarrow> [BLEClose (ble_object s), Release (BLEObject (ble_object s)),
                         Release (Stream (stream_id s))])
         @ (case context' d of None \<Rightarrow> [] | Some c \<Rightarrow> [Release (Context c)]))
   \<and> close_device_data e None tr = (None, tr)"
  by (simp add: close_device_data_eq) (simp add: close_device_data_def)


subsection \<open>Opening a session\<close>



text \<open>
  A failed open leaves the zeroed structure, and of what it acquired only the descriptor
  that \<^verbatim>\<open>find_descriptor_by_model\<close> returned is still live.
\<close>

lemma open_ble_device_failed:
  assumes res: "open_ble_device e (Some old) (Some addr) f m tr = (rc, data', tr')"
    and rc: "rc \<noteq> DC_STATUS_SUCCESS"
  shows "data' = Some zeroed \<and>
     live tr' =
       (if dc_context_new e tr \<noteq> DC_STATUS_SUCCESS then live tr
        else case fst (find_descriptor_by_model e f m (tr @ [Acquire (Context (length tr))])) of
               Inl _ \<Rightarrow> live tr
             | Inr d \<Rightarrow> Descriptor d # live tr)"
proof -
  let ?tr1 = "tr @ [Acquire (Context (length tr))]"
  obtain r2 tr2 where fm: "find_descriptor_by_model e f m ?tr1 = (r2, tr2)"
    by fastforce
  have l2: "live tr2 =
      (case r2 of Inl _ \<Rightarrow> Context (length tr) # live tr
       | Inr d \<Rightarrow> Descriptor d # Context (length tr) # live tr)"
    using find_descriptor_by_model_live [of e f m ?tr1] fm
    by (simp add: live_append split: sum.splits)
  obtain r3 tr3 where po: "ble_packet_open e (Some (length tr)) addr tr2 = (r3, tr3)"
    by fastforce
  have l3: "live tr3 =
      (case r3 of Inl _ \<Rightarrow> live tr2
       | Inr s \<Rightarrow> Stream (stream_id s) # BLEObject (ble_object s) # live tr2)"
    using ble_packet_open_live [of e "Some (length tr)" addr tr2] po by simp
  show ?thesis
    using res rc fm po l2 l3
    by (auto simp: open_ble_device_def Let_def close_device_data_eq zeroed_def live_append
        split: sum.splits if_splits prod.splits)
qed

text \<open>Whatever was live before an open is still live after it.\<close>

lemma open_ble_device_keeps_live:
  assumes res: "open_ble_device e (Some old) (Some addr) f m tr = (rc, data', tr')"
  shows "\<exists>new. live tr' = new @ live tr"
proof (cases "rc = DC_STATUS_SUCCESS")
  case False
  from open_ble_device_failed [OF res False] show ?thesis
    by (auto split: sum.splits if_splits intro: exI [of _ "[]"] exI [of _ "[x]" for x])
next
  case True
  let ?tr1 = "tr @ [Acquire (Context (length tr))]"
  obtain r2 tr2 where fm: "find_descriptor_by_model e f m ?tr1 = (r2, tr2)"
    by fastforce
  have l2: "live tr2 =
      (case r2 of Inl _ \<Rightarrow> Context (length tr) # live tr
       | Inr d \<Rightarrow> Descriptor d # Context (length tr) # live tr)"
    using find_descriptor_by_model_live [of e f m ?tr1] fm
    by (simp add: live_append split: sum.splits)
  obtain r3 tr3 where po: "ble_packet_open e (Some (length tr)) addr tr2 = (r3, tr3)"
    by fastforce
  have l3: "live tr3 =
      (case r3 of Inl _ \<Rightarrow> live tr2
       | Inr s \<Rightarrow> Stream (stream_id s) # BLEObject (ble_object s) # live tr2)"
    using ble_packet_open_live [of e "Some (length tr)" addr tr2] po by simp
  show ?thesis
    using res True fm po l2 l3
    by (auto simp: open_ble_device_def Let_def close_device_data_eq zeroed_def live_append
        store_model_def
        split: sum.splits if_splits option.splits prod.splits)
qed





text \<open>
  C5. After a failed \<^verbatim>\<open>open_ble_device\<close> every resource the call acquired should have been
  released. Here the connection fails: the call returns \<^verbatim>\<open>DC_STATUS_IO\<close> and leaves the
  zeroed structure, the BLE object and the context are released, but the descriptor that
  \<^verbatim>\<open>find_descriptor_by_model\<close> returned is never passed to \<^verbatim>\<open>dc_descriptor_free\<close> and is
  still live.
\<close>

theorem failed_connect_leaves_descriptor_live:
  "open_ble_device env_no_connect (Some zeroed) (Some ''AA:BB'') 655361 5 []
     = (DC_STATUS_IO, Some zeroed,
        [Acquire (Context 0), Acquire (Iterator 1), Acquire (Descriptor (shearwater ''Perdix'' 5)),
         Release (Iterator 1), InitializeBLEManager, Acquire (BLEObject 5),
         ConnectToBLEDevice 5 ''AA:BB'', Release (BLEObject 5), Release (Context 0)])
   \<and> live (snd (snd (open_ble_device env_no_connect (Some zeroed) (Some ''AA:BB'') 655361 5 [])))
       = [Descriptor (shearwater ''Perdix'' 5)]"
  by (simp add: open_ble_device_def env_no_connect_def env_ok_def find_descriptor_by_model_def
      shearwater_def ble_packet_open_def close_device_data_eq Let_def live_def zeroed_def)

subsection \<open>The serial number as text\<close>

lemma digit_value_hex_digits: "\<forall>d<16. digit_value (hex_digit d) = d"
  by code_simp

lemma digit_value_hex_digit: "d < 16 \<Longrightarrow> digit_value (hex_digit d) = d"
  using digit_value_hex_digits by blast

lemma hex_digit_in: "d < 16 \<Longrightarrow> hex_digit d \<in> set ''0123456789abcdef''"
  unfolding hex_digit_def by (rule nth_mem) simp

lemma hex_of_nat_set: "set (hex_of_nat n) \<subseteq> set ''0123456789abcdef''"
proof (induction n rule: hex_of_nat.induct)
  case (1 n)
  show ?case
  proof (cases "n < 16")
    case True
    then show ?thesis using hex_digit_in [of n] by (simp add: hex_of_nat.simps [of n])
  next
    case False
    with 1 hex_digit_in [of "n mod 16"] show ?thesis
      by (simp add: hex_of_nat.simps [of n])
  qed
qed

lemma hex_of_nat_length: "n < 16 ^ k \<Longrightarrow> 0 < k \<Longrightarrow> length (hex_of_nat n) \<le> k"
proof (induction n arbitrary: k rule: hex_of_nat.induct)
  case (1 n)
  show ?case
  proof (cases "n < 16")
    case True
    with 1(3) show ?thesis by (simp add: hex_of_nat.simps [of n])
  next
    case False
    from 1(3) obtain k' where k: "k = Suc k'" by (cases k) auto
    from False 1(2) k have k': "0 < k'" by (cases k') auto
    from 1(2) k have "n div 16 < 16 ^ k'"
      by (simp add: less_mult_imp_div_less mult.commute)
    from 1(1) [OF False this k'] k False show ?thesis
      by (simp add: hex_of_nat.simps [of n])
  qed
qed

lemma hex_of_nat_nonempty: "hex_of_nat n \<noteq> []"
  by (simp add: hex_of_nat.simps [of n])

lemma hex_value_snoc: "hex_value (s @ [c]) = 16 * hex_value s + digit_value c"
  by (simp add: hex_value_def)

lemma hex_value_hex_of_nat: "hex_value (hex_of_nat n) = n"
proof (induction n rule: hex_of_nat.induct)
  case (1 n)
  show ?case
  proof (cases "n < 16")
    case True
    then show ?thesis
      by (simp add: hex_of_nat.simps [of n] hex_value_def digit_value_hex_digit)
  next
    case False
    with 1 show ?thesis
      by (simp add: hex_of_nat.simps [of n] hex_value_snoc digit_value_hex_digit)
  qed
qed

lemma hex_value_zeros: "hex_value (replicate k CHR ''0'' @ s) = hex_value s"
proof -
  have z: "digit_value CHR ''0'' = 0" by (simp add: digit_value_def)
  have "foldl (\<lambda>a c. 16 * a + digit_value c) 0 (replicate k CHR ''0'') = 0"
    by (induction k) (simp_all add: z)
  then show ?thesis by (simp add: hex_value_def)
qed

lemma format_08x_length: "length (format_08x w) = 8"
proof -
  have "unat w < 16 ^ 8"
    using unsigned_less [of w, where ?'a = nat] by simp
  from hex_of_nat_length [OF this] show ?thesis
    by (simp add: format_08x_def Let_def)
qed

lemma snprintf_08x_16: "snprintf_08x 16 w = format_08x w"
  by (simp add: snprintf_08x_def format_08x_length)

lemma format_08x_value: "hex_value (format_08x w) = unat w"
  by (simp add: format_08x_def Let_def hex_value_zeros hex_value_hex_of_nat)

lemma format_08x_set: "set (format_08x w) \<subseteq> set ''0123456789abcdef''"
  using hex_of_nat_set [of "unat w"] by (auto simp: format_08x_def Let_def)

subsection \<open>The event callback\<close>

lemma devinfo_found:
  assumes "lookup_fingerprint d = Some lookup"
    and "model d = Some label"
    and "lookup (fingerprint_context d) label (snprintf_08x 16 (serial info)) = Some bytes"
    and "bytes \<noteq> []"
  shows "ble_device_event_cb dev (DC_EVENT_DEVINFO info) (Some d) tr
      = (Some (d\<lparr>devinfo := info, have_devinfo := 1, fingerprint := Some bytes,
                fsize := word_of_nat (length bytes)\<rparr>),
         tr @ [LookupFingerprint (fingerprint_context d) label (snprintf_08x 16 (serial info)),
               SetFingerprint dev bytes (length bytes)])"
  using assms by (simp add: ble_device_event_cb_def Let_def)

lemma devinfo_not_found:
  assumes "lookup_fingerprint d = Some lookup"
    and "model d = Some label"
    and "lookup (fingerprint_context d) label (snprintf_08x 16 (serial info)) = None
       \<or> lookup (fingerprint_context d) label (snprintf_08x 16 (serial info)) = Some []"
  shows "ble_device_event_cb dev (DC_EVENT_DEVINFO info) (Some d) tr
      = (Some (d\<lparr>devinfo := info, have_devinfo := 1\<rparr>),
         tr @ [LookupFingerprint (fingerprint_context d) label (snprintf_08x 16 (serial info))])"
  using assms by (auto simp: ble_device_event_cb_def Let_def)

lemma fsize_fits:
  "length bytes < 2 ^ 32 \<Longrightarrow> unat (word_of_nat (length bytes) :: 32 word) = length bytes"
  by (simp add: unat_of_nat)

text \<open>
  C3. On a device-info event, in a session with a lookup function and a model label, the
  callback stores the event, formats the serial as eight lowercase hexadecimal digits that
  denote it, and calls the lookup once with the model label and that string. When the
  lookup returns a non-null pointer and a non-zero size, the bytes are passed to
  \<^verbatim>\<open>dc_device_set_fingerprint\<close> once and the session keeps the pointer and, in its
  \<^verbatim>\<open>unsigned int\<close> field, the size (the same number whenever it is below \<open>2^32\<close>). When
  the lookup returns null or a size of zero, no fingerprint is set on the device and the
  session's fingerprint fields stay as they were.
\<close>

theorem devinfo_event_attaches_fingerprint:
  assumes lk: "lookup_fingerprint d = Some lookup"
    and lb: "model d = Some label"
  shows
    "length (snprintf_08x 16 (serial info)) = 8
     \<and> set (snprintf_08x 16 (serial info)) \<subseteq> set ''0123456789abcdef''
     \<and> hex_value (snprintf_08x 16 (serial info)) = unat (serial info)
     \<and> (lookup (fingerprint_context d) label (snprintf_08x 16 (serial info)) = Some bytes
          \<and> bytes \<noteq> []
        \<longrightarrow> ble_device_event_cb dev (DC_EVENT_DEVINFO info) (Some d) tr
              = (Some (d\<lparr>devinfo := info, have_devinfo := 1, fingerprint := Some bytes,
                        fsize := word_of_nat (length bytes)\<rparr>),
                 tr @ [LookupFingerprint (fingerprint_context d) label
                         (snprintf_08x 16 (serial info)),
                       SetFingerprint dev bytes (length bytes)])
            \<and> (length bytes < 2 ^ 32
                  \<longrightarrow> unat (word_of_nat (length bytes) :: 32 word) = length bytes))
     \<and> (lookup (fingerprint_context d) label (snprintf_08x 16 (serial info)) = None
          \<or> lookup (fingerprint_context d) label (snprintf_08x 16 (serial info)) = Some []
        \<longrightarrow> ble_device_event_cb dev (DC_EVENT_DEVINFO info) (Some d) tr
              = (Some (d\<lparr>devinfo := info, have_devinfo := 1\<rparr>),
                 tr @ [LookupFingerprint (fingerprint_context d) label
                         (snprintf_08x 16 (serial info))]))"
proof -
  have "length (snprintf_08x 16 (serial info)) = 8"
    by (simp add: snprintf_08x_16 format_08x_length)
  moreover have "set (snprintf_08x 16 (serial info)) \<subseteq> set ''0123456789abcdef''"
    unfolding snprintf_08x_16 by (rule format_08x_set)
  moreover have "hex_value (snprintf_08x 16 (serial info)) = unat (serial info)"
    by (simp add: snprintf_08x_16 format_08x_value)
  ultimately show ?thesis
    using devinfo_found [OF lk lb] devinfo_not_found [OF lk lb] fsize_fits
    by blast
qed

lemma deadbeef: "snprintf_08x 16 0xDEADBEEF = ''deadbeef''"
  by (simp add: snprintf_08x_def format_08x_def hex_of_nat.simps hex_digit_def Let_def)

text \<open>
  The example of the spec: serial \<^verbatim>\<open>0xDEADBEEF\<close>, a lookup that knows the bytes \<^verbatim>\<open>AA BB\<close> for
  the key (\<^verbatim>\<open>"Suunto EON Steel"\<close>, \<^verbatim>\<open>"deadbeef"\<close>).
\<close>

theorem devinfo_event_attaches_fingerprint_witness:
  "snprintf_08x 16 0xDEADBEEF = ''deadbeef''
   \<and> ble_device_event_cb 8
        (DC_EVENT_DEVINFO \<lparr>devinfo_model = 2, firmware = 1, serial = 0xDEADBEEF\<rparr>)
        (Some sample_session) sample_trace
     = (Some (sample_session
               \<lparr>devinfo := \<lparr>devinfo_model = 2, firmware = 1, serial = 0xDEADBEEF\<rparr>,
                have_devinfo := 1, fingerprint := Some [0xAA, 0xBB], fsize := 2\<rparr>),
        sample_trace @ [LookupFingerprint None ''Suunto EON Steel'' ''deadbeef'',
                        SetFingerprint 8 [0xAA, 0xBB] 2])"
proof -
  let ?info = "\<lparr>devinfo_model = 2, firmware = 1, serial = 0xDEADBEEF\<rparr>"
  have lk: "lookup_fingerprint sample_session = Some sample_lookup"
    and lb: "model sample_session = Some ''Suunto EON Steel''"
    and fc: "fingerprint_context sample_session = None"
    by (simp_all add: sample_session_def zeroed_def)
  have s: "snprintf_08x 16 (serial ?info) = ''deadbeef''"
    by (simp only: dc_event_devinfo_t.select_convs deadbeef)
  have found: "sample_lookup (fingerprint_context sample_session) ''Suunto EON Steel''
      (snprintf_08x 16 (serial ?info)) = Some [0xAA, 0xBB]"
    unfolding s by (simp add: sample_lookup_def)
  have nonempty: "[0xAA, 0xBB :: 8 word] \<noteq> []"
    by simp
  note inst = devinfo_event_attaches_fingerprint [OF lk lb, of ?info "[0xAA, 0xBB]" 8 sample_trace]
  note run = inst [THEN conjunct2, THEN conjunct2, THEN conjunct2, THEN conjunct1, THEN mp,
      OF conjI [OF found nonempty], THEN conjunct1]
  have "ble_device_event_cb 8 (DC_EVENT_DEVINFO ?info) (Some sample_session) sample_trace
      = (Some (sample_session\<lparr>devinfo := ?info, have_devinfo := 1,
                fingerprint := Some [0xAA, 0xBB], fsize := 2\<rparr>),
         sample_trace @ [LookupFingerprint None ''Suunto EON Steel'' ''deadbeef'',
                         SetFingerprint 8 [0xAA, 0xBB] 2])"
    using run unfolding s fc by simp
  with deadbeef show ?thesis
    by (intro conjI)
qed

subsection \<open>Opening with identification, and reuse of a session structure\<close>

lemma identify_and_open_status:
  "status_of (fst (identify_and_open e s data name address t))
     = (case get_device_info_from_name e name t of
          (Inl rc, t1) \<Rightarrow> rc
        | (Inr (family, model_no), t1) \<Rightarrow> fst (open_ble_device e data address family model_no t1))"
  by (auto simp: identify_and_open_def split: prod.splits sum.splits)

text \<open>
  C6. \<^verbatim>\<open>open_ble_device_with_identification\<close>, once its session structure is allocated:
  when the stored family is not \<^verbatim>\<open>DC_FAMILY_NULL\<close> and the stored model is not 0 it first
  opens with the stored pair, and if that succeeds it returns that session with the trace
  of that open alone, the same for every name; when that open fails, and when the stored
  pair is absent (then no open precedes), it runs \<^verbatim>\<open>get_device_info_from_name\<close> and opens
  with the resolved pair. A failed resolution, and a failed open with the resolved pair,
  is returned as the status after the session structure is freed.
\<close>

theorem stored_pair_is_tried_first:
  assumes calloc: "malloc e tr"
  shows
    "(stored_family \<noteq> DC_FAMILY_NULL \<and> stored_model \<noteq> 0
        \<and> fst (open_ble_device e (Some zeroed) address stored_family stored_model
                 (tr @ [Acquire (Session (length tr))])) = DC_STATUS_SUCCESS
      \<longrightarrow> (\<forall>n. open_ble_device_with_identification e n address stored_family stored_model tr
                 = (Inr (fst (snd (open_ble_device e (Some zeroed) address stored_family
                                     stored_model (tr @ [Acquire (Session (length tr))])))),
                    snd (snd (open_ble_device e (Some zeroed) address stored_family
                                stored_model (tr @ [Acquire (Session (length tr))]))))))
     \<and> (stored_family \<noteq> DC_FAMILY_NULL \<and> stored_model \<noteq> 0
        \<and> fst (open_ble_device e (Some zeroed) address stored_family stored_model
                 (tr @ [Acquire (Session (length tr))])) \<noteq> DC_STATUS_SUCCESS
      \<longrightarrow> open_ble_device_with_identification e name address stored_family stored_model tr
            = identify_and_open e (length tr)
                (fst (snd (open_ble_device e (Some zeroed) address stored_family stored_model
                             (tr @ [Acquire (Session (length tr))]))))
                name address
                (snd (snd (open_ble_device e (Some zeroed) address stored_family stored_model
                             (tr @ [Acquire (Session (length tr))])))))
     \<and> (stored_family = DC_FAMILY_NULL \<or> stored_model = 0
      \<longrightarrow> open_ble_device_with_identification e name address stored_family stored_model tr
            = identify_and_open e (length tr) (Some zeroed) name address
                (tr @ [Acquire (Session (length tr))]))
     \<and> identify_and_open e s data name address t
          = (case get_device_info_from_name e name t of
               (Inl rc, t1) \<Rightarrow> (Inl rc, t1 @ [Release (Session s)])
             | (Inr (family, model_no), t1) \<Rightarrow>
                 (case open_ble_device e data address family model_no t1 of
                    (rc, data', t2) \<Rightarrow>
                      if rc = DC_STATUS_SUCCESS then (Inr data', t2)
                      else (Inl rc, t2 @ [Release (Session s)])))
     \<and> status_of (fst (identify_and_open e s data name address t))
          = (case get_device_info_from_name e name t of
               (Inl rc, t1) \<Rightarrow> rc
             | (Inr (family, model_no), t1) \<Rightarrow>
                 fst (open_ble_device e data address family model_no t1))"
proof -
  have a: "open_ble_device_with_identification e n address stored_family stored_model tr
      = (Inr (fst (snd (open_ble_device e (Some zeroed) address stored_family
                          stored_model (tr @ [Acquire (Session (length tr))])))),
         snd (snd (open_ble_device e (Some zeroed) address stored_family
                     stored_model (tr @ [Acquire (Session (length tr))]))))"
    if "stored_family \<noteq> DC_FAMILY_NULL" "stored_model \<noteq> 0"
      "fst (open_ble_device e (Some zeroed) address stored_family stored_model
              (tr @ [Acquire (Session (length tr))])) = DC_STATUS_SUCCESS"
    for n
    using calloc that
    by (auto simp: open_ble_device_with_identification_def Let_def split: prod.splits)
  have b: "open_ble_device_with_identification e name address stored_family stored_model tr
      = identify_and_open e (length tr)
          (fst (snd (open_ble_device e (Some zeroed) address stored_family stored_model
                       (tr @ [Acquire (Session (length tr))]))))
          name address
          (snd (snd (open_ble_device e (Some zeroed) address stored_family stored_model
                       (tr @ [Acquire (Session (length tr))]))))"
    if "stored_family \<noteq> DC_FAMILY_NULL" "stored_model \<noteq> 0"
      "fst (open_ble_device e (Some zeroed) address stored_family stored_model
              (tr @ [Acquire (Session (length tr))])) \<noteq> DC_STATUS_SUCCESS"
    using calloc that
    by (auto simp: open_ble_device_with_identification_def Let_def split: prod.splits)
  have c: "open_ble_device_with_identification e name address stored_family stored_model tr
      = identify_and_open e (length tr) (Some zeroed) name address
          (tr @ [Acquire (Session (length tr))])"
    if "stored_family = DC_FAMILY_NULL \<or> stored_model = 0"
    using calloc that
    by (auto simp: open_ble_device_with_identification_def Let_def)
  have d: "identify_and_open e s data name address t
      = (case get_device_info_from_name e name t of
           (Inl rc, t1) \<Rightarrow> (Inl rc, t1 @ [Release (Session s)])
         | (Inr (family, model_no), t1) \<Rightarrow>
             (case open_ble_device e data address family model_no t1 of
                (rc, data', t2) \<Rightarrow>
                  if rc = DC_STATUS_SUCCESS then (Inr data', t2)
                  else (Inl rc, t2 @ [Release (Session s)])))"
    by (auto simp: identify_and_open_def split: prod.splits sum.splits)
  from a b c d identify_and_open_status [of e s data name address t] show ?thesis
    by (intro conjI impI allI) (elim conjE, assumption+)+
qed

lemma open_ble_device_ignores_old:
  "open_ble_device e (Some old) (Some addr) f m tr
     = open_ble_device e (Some zeroed) (Some addr) f m tr"
  by (simp add: open_ble_device_def)

text \<open>
  C10. With non-null session and address, \<^verbatim>\<open>open_ble_device\<close> zeroes the structure before
  anything else: its status, the session it leaves and its trace are those of the call on
  a zeroed structure, whatever the structure held. Nothing that was live before the call
  is released by it, so what the structure referred to is neither closed nor freed; and
  after a failed call the structure is all zeroes.
\<close>

theorem open_ble_device_zeroes_first:
  "open_ble_device e (Some old) (Some addr) f m tr
     = open_ble_device e (Some zeroed) (Some addr) f m tr
   \<and> (\<exists>new. live (snd (snd (open_ble_device e (Some old) (Some addr) f m tr))) = new @ live tr)
   \<and> (fst (open_ble_device e (Some old) (Some addr) f m tr) \<noteq> DC_STATUS_SUCCESS
        \<longrightarrow> fst (snd (open_ble_device e (Some old) (Some addr) f m tr)) = Some zeroed)"
proof -
  obtain rc data' tr' where res:
    "open_ble_device e (Some old) (Some addr) f m tr = (rc, data', tr')"
    by (metis prod_cases3)
  from open_ble_device_keeps_live [OF res] open_ble_device_failed [OF res] res
    open_ble_device_ignores_old [of e old addr f m tr]
  show ?thesis by auto
qed


lemmas eval_defs =
  open_ble_device_def find_descriptor_by_model_def ble_packet_open_def ble_iostream_create_def
  store_model_def close_device_data_eq Let_def zeroed_def shearwater_def env_ok_def
  DC_FAMILY_NULL_def

lemma perdix_2_first: "\<not> matches (name_patterns ! 0) ''Perdix 2'' \<and> matches (name_patterns ! 1) ''Perdix 2''"
  by code_simp

text \<open>
  The sample session is passed to an open that fails at the connection: it comes back
  zeroed, and its device, stream, BLE object, descriptor, context and label are still live.
\<close>

theorem open_ble_device_zeroes_first_witness:
  "open_ble_device env_no_connect (Some sample_session) (Some ''CC:DD'') 655361 5 sample_trace
     = open_ble_device env_no_connect (Some zeroed) (Some ''CC:DD'') 655361 5 sample_trace
   \<and> fst (snd (open_ble_device env_no_connect (Some sample_session) (Some ''CC:DD'') 655361 5
                   sample_trace)) = Some zeroed
   \<and> live sample_trace
       = [Label ''Suunto EON Steel'', Device 8, Stream 7, BLEObject 5,
          Descriptor suunto_eon_steel, Context 0]
   \<and> live (snd (snd (open_ble_device env_no_connect (Some sample_session) (Some ''CC:DD'')
                         655361 5 sample_trace)))
       = Descriptor (shearwater ''Perdix'' 5) # live sample_trace"
proof -
  note inst = open_ble_device_zeroes_first [of env_no_connect sample_session "''CC:DD''" 655361 5 sample_trace]
  have failed: "fst (open_ble_device env_no_connect (Some sample_session) (Some ''CC:DD'')
      655361 5 sample_trace) \<noteq> DC_STATUS_SUCCESS"
    by (simp add: eval_defs env_no_connect_def)
  have l0: "live sample_trace
      = [Label ''Suunto EON Steel'', Device 8, Stream 7, BLEObject 5,
          Descriptor suunto_eon_steel, Context 0]"
    by (simp add: sample_trace_def live_def)
  have l1: "live (snd (snd (open_ble_device env_no_connect (Some sample_session) (Some ''CC:DD'')
      655361 5 sample_trace))) = Descriptor (shearwater ''Perdix'' 5) # live sample_trace"
    by (simp add: eval_defs env_no_connect_def live_append l0)
  from inst [THEN conjunct1] inst [THEN conjunct2, THEN conjunct2, THEN mp, OF failed] l0 l1
  show ?thesis by (intro conjI)
qed


lemmas resolve_defs =
  identify_and_open_def get_device_info_from_name_def find_descriptor_by_name_def
  name_patterns_def matches_def descriptor_is_def strlen_def

text \<open>
  A stored pair that opens (the label is that of the stored model, not of the name), a
  stored pair that fails to open, and no stored pair.
\<close>

theorem stored_pair_is_tried_first_witness:
  "opened_label (open_ble_device_with_identification
       (env_ok [shearwater ''Perdix'' 5, shearwater ''Perdix 2'' 11])
       ''Perdix 2'' (Some ''AA:BB'') 655361 5 []) = Some ''Shearwater Perdix''
   \<and> opened_label (open_ble_device_with_identification env_only_perdix_2
       ''Perdix 2'' (Some ''AA:BB'') 655361 5 []) = Some ''Shearwater Perdix 2''
   \<and> opened_label (open_ble_device_with_identification
       (env_ok [shearwater ''Perdix'' 5, shearwater ''Perdix 2'' 11])
       ''Perdix 2'' (Some ''AA:BB'') DC_FAMILY_NULL 0 []) = Some ''Shearwater Perdix 2''"
proof -
  let ?e = "env_ok [shearwater ''Perdix'' 5, shearwater ''Perdix 2'' 11]"
  let ?a = "Some ''AA:BB''"
  have calloc: "malloc ?e []" "malloc env_only_perdix_2 []"
    by (simp_all add: env_ok_def env_only_perdix_2_def)
  note stored = stored_pair_is_tried_first [OF calloc(1), of 655361 5 ?a, THEN conjunct1, THEN mp, THEN spec,
      of "''Perdix 2''"]
  have 1: "opened_label (open_ble_device_with_identification ?e ''Perdix 2'' ?a 655361 5 [])
      = Some ''Shearwater Perdix''"
    by (subst stored) (simp_all add: eval_defs opened_label_def)
  note retry = stored_pair_is_tried_first [OF calloc(2), of 655361 5 ?a "''Perdix 2''",
      THEN conjunct2, THEN conjunct1, THEN mp]
  have 2: "opened_label (open_ble_device_with_identification env_only_perdix_2 ''Perdix 2'' ?a
      655361 5 []) = Some ''Shearwater Perdix 2''"
    by (subst retry)
       (simp_all add: eval_defs resolve_defs env_only_perdix_2_def opened_label_def)
  note absent = stored_pair_is_tried_first [OF calloc(1), of DC_FAMILY_NULL 0 ?a "''Perdix 2''",
      THEN conjunct2, THEN conjunct2, THEN conjunct1, THEN mp]
  have 3: "opened_label (open_ble_device_with_identification ?e ''Perdix 2'' ?a
      DC_FAMILY_NULL 0 []) = Some ''Shearwater Perdix 2''"
    by (subst absent) (simp_all add: eval_defs resolve_defs opened_label_def)
  from 1 2 3 show ?thesis by (intro conjI)
qed

end
